theory Spec2Isabelle
  imports Complex_Main
begin

section \<open>Calendar days: the date-arithmetic collaborator\<close>

text \<open>
  The week calendar handles dates as strings \<^verbatim>\<open>YYYY-MM-DD\<close> and does all arithmetic through
  the \<^verbatim>\<open>xdate\<close> library. An \<^verbatim>\<open>XDate\<close> built from such a string holds local midnight of
  that calendar day, and \<^verbatim>\<open>getDay\<close>, \<^verbatim>\<open>addDays\<close> and \<^verbatim>\<open>addWeeks\<close> work on the calendar
  day, so the value is modelled by the number of days since 1970-01-01 (a Thursday) in the
  proleptic Gregorian calendar.
\<close>

definition days_from_civil :: "int \<Rightarrow> int \<Rightarrow> int \<Rightarrow> int" where
  "days_from_civil y m d =
     (let y' = (if m \<le> 2 then y - 1 else y);
          era = y' div 400;
          yoe = y' - era * 400;
          mp = (if m > 2 then m - 3 else m + 9);
          doy = (153 * mp + 2) div 5 + d - 1;
          doe = yoe * 365 + yoe div 4 - yoe div 100 + doy
      in era * 146097 + doe - 719468)"

definition civil_from_days :: "int \<Rightarrow> int \<times> int \<times> int" where
  "civil_from_days z =
     (let z' = z + 719468;
          era = z' div 146097;
          doe = z' - era * 146097;
          c = min 3 (doe div 36524);
          r1 = doe - c * 36524;
          q = r1 div 1461;
          r2 = r1 - q * 1461;
          a = min 3 (r2 div 365);
          doy = r2 - a * 365;
          yoe = c * 100 + q * 4 + a;
          mp = (5 * doy + 2) div 153;
          d = doy - (153 * mp + 2) div 5 + 1;
          m = (if mp < 10 then mp + 3 else mp - 9)
      in (if m \<le> 2 then yoe + era * 400 + 1 else yoe + era * 400, m, d))"

definition digit_char :: "int \<Rightarrow> char" where
  "digit_char n = char_of (48 + n)"

definition digit_val :: "char \<Rightarrow> int option" where
  "digit_val c =
     (let v = of_char c in if 48 \<le> v \<and> v \<le> (57::int) then Some (v - 48) else None)"

definition num2 :: "char \<Rightarrow> char \<Rightarrow> int option" where
  "num2 a b = (case (digit_val a, digit_val b) of
      (Some x, Some y) \<Rightarrow> Some (10 * x + y) | _ \<Rightarrow> None)"

definition num4 :: "char \<Rightarrow> char \<Rightarrow> char \<Rightarrow> char \<Rightarrow> int option" where
  "num4 a b c d = (case (num2 a b, num2 c d) of
      (Some x, Some y) \<Rightarrow> Some (100 * x + y) | _ \<Rightarrow> None)"

definition pad2 :: "int \<Rightarrow> string" where
  "pad2 n = [digit_char (n div 10), digit_char (n mod 10)]"

definition pad4 :: "int \<Rightarrow> string" where
  "pad4 n = pad2 (n div 100) @ pad2 (n mod 100)"

text \<open>
  \<^verbatim>\<open>new XDate(date)\<close> on a date-only ISO string: four digits, two digits, two digits. The
  library hands the fields to the JavaScript date constructor, which carries an overflowing
  month into the year and an overflowing day into the month. The model stops there
  (\<open>None\<close>) for a string of any other form and for a year below 100, which that
  constructor reads as a year of the twentieth century: the source does not check its
  input, and what the collaborators do with an invalid date is not modelled.
\<close>

definition XDate :: "string \<Rightarrow> int option" where
  "XDate s = (case s of
      [y1, y2, y3, y4, h1, m1, m2, h2, d1, d2] \<Rightarrow>
        (if h1 = CHR ''-'' \<and> h2 = CHR ''-'' then
           (case (num4 y1 y2 y3 y4, num2 m1 m2, num2 d1 d2) of
              (Some y, Some m, Some d) \<Rightarrow>
                 (if 100 \<le> y
                  then Some (days_from_civil (y + (m - 1) div 12) ((m - 1) mod 12 + 1) d)
                  else None)
            | _ \<Rightarrow> None)
         else None)
    | _ \<Rightarrow> None)"

text \<open>\<^verbatim>\<open>getDay\<close>: 0 is Sunday, 6 is Saturday.\<close>

definition getDay :: "int \<Rightarrow> int" where
  "getDay d = (d + 4) mod 7"

definition addDays :: "int \<Rightarrow> int \<Rightarrow> int" where
  "addDays d n = d + n"

definition addWeeks :: "int \<Rightarrow> int \<Rightarrow> int" where
  "addWeeks d n = d + 7 * n"

text \<open>
  Modelled from the spec: \<^verbatim>\<open>toMarkingFormat\<close> (imported from \<^verbatim>\<open>../../interface\<close>)
  serialises a date in the canonical form \<^verbatim>\<open>YYYY-MM-DD\<close>.
\<close>

definition toMarkingFormat :: "int \<Rightarrow> string" where
  "toMarkingFormat x =
     (case civil_from_days x of (y, m, d) \<Rightarrow> pad4 y @ ''-'' @ pad2 m @ ''-'' @ pad2 d)"

text \<open>
  The days whose year has four digits in every reading of the canonical form: the whole
  400-year cycles from 1200-03-01 to 9600-02-29.
\<close>

definition inRange :: "int \<Rightarrow> bool" where
  "inRange x = (- 281177 \<le> x \<and> x < 2786860)"

section \<open>WeekCalendar: the window of week pages\<close>

definition NUMBER_OF_PAGES :: int where
  "NUMBER_OF_PAGES = 50"

text \<open>
  \<^verbatim>\<open>getDate(date, firstDay, weekIndex)\<close>. Week 0 keeps the date as it is; every other week
  is counted from the first day of the date's week.
\<close>

definition getDate :: "string \<Rightarrow> int \<Rightarrow> int \<Rightarrow> string option" where
  "getDate date firstDay weekIndex =
     (case XDate date of
        None \<Rightarrow> None
      | Some d \<Rightarrow>
          (let dayOfTheWeek = getDay d;
               dayOfTheWeek = (if dayOfTheWeek < firstDay \<and> firstDay > 0
                               then 7 + dayOfTheWeek else dayOfTheWeek);
               dd = (if weekIndex = 0 then d else addDays d (firstDay - dayOfTheWeek));
               newDate = addWeeks dd weekIndex
           in Some (toMarkingFormat newDate)))"

text \<open>The \<^verbatim>\<open>for\<close> loop of \<^verbatim>\<open>getDatesArray\<close>, from \<open>index\<close> up to \<open>numberOfPages\<close>.\<close>

function getDatesArray_loop ::
  "string \<Rightarrow> int \<Rightarrow> int \<Rightarrow> int \<Rightarrow> string list \<Rightarrow> string list option" where
  "getDatesArray_loop date firstDay numberOfPages index array =
     (if index \<le> numberOfPages then
        (case getDate date firstDay index of
           None \<Rightarrow> None
         | Some d \<Rightarrow> getDatesArray_loop date firstDay numberOfPages (index + 1) (array @ [d]))
      else Some array)"
  by pat_completeness auto
termination
  by (relation "measure (\<lambda>(date, firstDay, numberOfPages, index, array).
        nat (numberOfPages + 1 - index))") auto

declare getDatesArray_loop.simps [simp del]

definition getDatesArray :: "string \<Rightarrow> int \<Rightarrow> int \<Rightarrow> string list option" where
  "getDatesArray date firstDay numberOfPages =
     getDatesArray_loop date firstDay numberOfPages (- numberOfPages) []"

text \<open>
  The day that \<^verbatim>\<open>getDate\<close> serialises, as a function of the parsed date: \<open>weekStart\<close> is
  \<^verbatim>\<open>d.addDays(firstDay - dayOfTheWeek)\<close>, and \<open>pageDay\<close> is \<^verbatim>\<open>newDate\<close>.
\<close>

definition weekStart :: "int \<Rightarrow> int \<Rightarrow> int" where
  "weekStart d firstDay =
     (let dayOfTheWeek = getDay d;
          dayOfTheWeek = (if dayOfTheWeek < firstDay \<and> firstDay > 0
                          then 7 + dayOfTheWeek else dayOfTheWeek)
      in addDays d (firstDay - dayOfTheWeek))"

definition pageDay :: "int \<Rightarrow> int \<Rightarrow> int \<Rightarrow> int" where
  "pageDay d firstDay weekIndex =
     (if weekIndex = 0 then d else addWeeks (weekStart d firstDay) weekIndex)"

text \<open>Consecutive entries of a window are exactly \<open>k\<close> days apart.\<close>

fun days_apart :: "int \<Rightarrow> string list \<Rightarrow> bool" where
  "days_apart k (a # b # rest) =
     ((case (XDate a, XDate b) of (Some x, Some y) \<Rightarrow> y - x = k | _ \<Rightarrow> False)
      \<and> days_apart k (b # rest))"
| "days_apart k rest = True"

text \<open>
  The provenance of a date update (\<^verbatim>\<open>UpdateSources\<close>, imported from \<^verbatim>\<open>../commons\<close>), with
  the members the sources use.
\<close>

datatype UpdateSources = ARROW_PRESS | WEEK_ARROW_PRESS | DAY_PRESS | WEEK_SCROLL | PAGE_SCROLL

text \<open>
  What a callback of the component asks of its collaborators: the shared context
  (\<^verbatim>\<open>context.setDate\<close>), its own state (\<^verbatim>\<open>setItems\<close>) and the list
  (\<^verbatim>\<open>scrollToOffset\<close>). \<^verbatim>\<open>items[pageIndex]\<close> is \<^verbatim>\<open>undefined\<close> outside the array, which is
  \<open>None\<close> here.
\<close>

datatype effect =
    SetDate "string option" UpdateSources
  | SetItems "string list"
  | ScrollToOffset real real bool

definition item_at :: "'a list \<Rightarrow> int \<Rightarrow> 'a option" where
  "item_at xs i = (if 0 \<le> i \<and> i < int (length xs) then Some (xs ! nat i) else None)"

definition onPageChange :: "string list \<Rightarrow> int \<Rightarrow> bool \<Rightarrow> effect list" where
  "onPageChange items pageIndex scrolledByUser =
     (if scrolledByUser then [SetDate (item_at items pageIndex) WEEK_SCROLL] else [])"

text \<open>
  \<^verbatim>\<open>reloadPages(pageIndex)\<close>: the window is generated again around the date of the page.
  \<open>None\<close> where the page does not exist or its date does not parse.
\<close>

definition reloadPages :: "string list \<Rightarrow> int \<Rightarrow> int \<Rightarrow> effect list option" where
  "reloadPages items firstDay pageIndex =
     (case item_at items pageIndex of
        None \<Rightarrow> None
      | Some date \<Rightarrow>
          (case getDatesArray date firstDay NUMBER_OF_PAGES of
             None \<Rightarrow> None
           | Some array \<Rightarrow> Some [SetItems array]))"

text \<open>\<^verbatim>\<open>Array.prototype.findIndex\<close>: the first index whose item satisfies \<open>P\<close>, or \<open>-1\<close>.\<close>

fun findIndex_from :: "('a \<Rightarrow> bool) \<Rightarrow> 'a list \<Rightarrow> int \<Rightarrow> int" where
  "findIndex_from P [] i = - 1"
| "findIndex_from P (x # xs) i = (if P x then i else findIndex_from P xs (i + 1))"

definition findIndex :: "('a \<Rightarrow> bool) \<Rightarrow> 'a list \<Rightarrow> int" where
  "findIndex P xs = findIndex_from P xs 0"

text \<open>
  The effect that runs when the date of the context changes. \<^verbatim>\<open>sameWeek\<close> (imported from
  \<^verbatim>\<open>../../dateutils\<close>) is a parameter; \<open>listMounted\<close> tells whether \<^verbatim>\<open>list.current\<close>
  holds a list that can scroll.
\<close>

definition dateEffect ::
  "(string \<Rightarrow> string \<Rightarrow> int \<Rightarrow> bool) \<Rightarrow> bool \<Rightarrow> string list \<Rightarrow> int \<Rightarrow> real \<Rightarrow>
   string \<Rightarrow> UpdateSources \<Rightarrow> effect list" where
  "dateEffect sameWeek listMounted items firstDay containerWidth date updateSource =
     (if updateSource \<noteq> WEEK_SCROLL then
        (let pageIndex = findIndex (\<lambda>item. sameWeek item date firstDay) items
         in if listMounted
            then [ScrollToOffset (real_of_int pageIndex * containerWidth) 0 False] else [])
      else [])"

text \<open>\<^verbatim>\<open>Math.round\<close>, and the list's \<^verbatim>\<open>onReachNearEdgeThreshold\<close> property.\<close>

definition Math_round :: "real \<Rightarrow> int" where
  "Math_round x = \<lfloor>x + 1 / 2\<rfloor>"

definition onReachNearEdgeThreshold :: int where
  "onReachNearEdgeThreshold = Math_round (real_of_int NUMBER_OF_PAGES * (4 / 10))"

section \<open>ExpandableCalendar: the expansion state machine\<close>

datatype Positions = CLOSED | OPEN

definition WEEK_HEIGHT :: real where
  "WEEK_HEIGHT = 46"

definition PAN_GESTURE_THRESHOLD :: real where
  "PAN_GESTURE_THRESHOLD = 30"

text \<open>
  The properties and the context values the state machine reads. A property that was not
  passed is \<open>None\<close> and takes the default of the destructuring. The knob height
  (\<^verbatim>\<open>KNOB_CONTAINER_HEIGHT\<close>, imported from \<^verbatim>\<open>./style\<close>) and the screen size
  (\<^verbatim>\<open>constants\<close>, imported from \<^verbatim>\<open>../commons/constants\<close>) are fields as well.
\<close>

record props =
  horizontal_prop :: "bool option"
  hideKnob_prop :: "bool option"
  openThreshold_prop :: "real option"
  closeThreshold_prop :: "real option"
  numberOfDays :: "real option"
  KNOB_CONTAINER_HEIGHT :: real
  screenHeight :: real
  screenWidth :: real

definition horizontal :: "props \<Rightarrow> bool" where
  "horizontal p = (case horizontal_prop p of None \<Rightarrow> True | Some b \<Rightarrow> b)"

text \<open>\<^verbatim>\<open>hideKnob = numberOfDays && numberOfDays > 1\<close>, read as a condition.\<close>

definition hideKnob :: "props \<Rightarrow> bool" where
  "hideKnob p =
     (case hideKnob_prop p of
        Some b \<Rightarrow> b
      | None \<Rightarrow> (case numberOfDays p of None \<Rightarrow> False | Some n \<Rightarrow> n \<noteq> 0 \<and> n > 1))"

definition openThreshold :: "props \<Rightarrow> real" where
  "openThreshold p =
     (case openThreshold_prop p of None \<Rightarrow> PAN_GESTURE_THRESHOLD | Some t \<Rightarrow> t)"

definition closeThreshold :: "props \<Rightarrow> real" where
  "closeThreshold p =
     (case closeThreshold_prop p of None \<Rightarrow> PAN_GESTURE_THRESHOLD | Some t \<Rightarrow> t)"

text \<open>
  The state of the component: the React state (\<open>position\<close>, \<open>headerHeight\<close>), the refs
  (\<^verbatim>\<open>numberOfWeeks.current\<close>, \<^verbatim>\<open>openHeight.current\<close>, \<^verbatim>\<open>_height.current\<close>), the style
  objects written by the gesture handlers and the two animated values.
\<close>

record calendar =
  position :: Positions
  headerHeight :: real
  numberOfWeeks_current :: real
  openHeight_current :: real
  height_current :: real
  wrapperHeight :: real
  headerTop :: real
  weekOpacity :: real
  deltaY :: real
  headerDeltaY :: real

definition isOpen :: "calendar \<Rightarrow> bool" where
  "isOpen st = (position st = OPEN)"

definition getOpenHeight :: "props \<Rightarrow> calendar \<Rightarrow> real" where
  "getOpenHeight p st =
     (if \<not> horizontal p then max (screenHeight p) (screenWidth p)
      else headerHeight st + WEEK_HEIGHT * numberOfWeeks_current st
           + (if hideKnob p then 0 else KNOB_CONTAINER_HEIGHT p))"

text \<open>\<^verbatim>\<open>Number(numberOfDays) > 1\<close> is false when \<^verbatim>\<open>numberOfDays\<close> is undefined.\<close>

definition closedHeight :: "props \<Rightarrow> calendar \<Rightarrow> real" where
  "closedHeight p st =
     headerHeight st + WEEK_HEIGHT
     + (if hideKnob p \<or> (case numberOfDays p of None \<Rightarrow> False | Some n \<Rightarrow> n > 1)
        then 0 else KNOB_CONTAINER_HEIGHT p)"

definition startHeight :: "props \<Rightarrow> calendar \<Rightarrow> real" where
  "startHeight p st = (if isOpen st then getOpenHeight p st else closedHeight p st)"

text \<open>
  \<^verbatim>\<open>handlePanResponderMove\<close> with \<^verbatim>\<open>gestureState.dy = dy\<close>. The styles it writes are
  pushed to the native views by \<^verbatim>\<open>updateNativeStyles\<close>.
\<close>

definition handlePanResponderMove :: "props \<Rightarrow> calendar \<Rightarrow> real \<Rightarrow> calendar" where
  "handlePanResponderMove p st dy =
     (let st1 = st\<lparr>wrapperHeight :=
                  min (max (closedHeight p st) (height_current st + dy)) (openHeight_current st)\<rparr>
      in if \<not> horizontal p then
           st1\<lparr>headerTop := min (max (- dy) (- headerHeight st)) 0\<rparr>
         else if \<not> isOpen st then
           st1\<lparr>weekOpacity := min 1 (max (1 - dy / 100) 0)\<rparr>
         else if dy < 0 then
           st1\<lparr>weekOpacity := max 0 (min \<bar>dy / 200\<bar> 1)\<rparr>
         else st1)"

text \<open>
  A spring animation that has been started: the target of the height, the target of the
  header where there is one (vertical orientation only), and the flag that the completion
  callback passes to \<^verbatim>\<open>onCalendarToggled\<close>.
\<close>

record spring =
  spring_toValue :: real
  spring_header :: "real option"
  spring_isOpen :: bool

text \<open>
  \<^verbatim>\<open>bounceToPosition(toValue = 0)\<close>: the synchronous part, up to the start of the spring.
  The argument is \<open>None\<close> when the caller passes none. \<open>threshold\<close> is the local constant
  of that name, \<open>isOpen1\<close> and \<open>isOpen2\<close> are \<^verbatim>\<open>_isOpen\<close> before and after the re-check.
\<close>

definition threshold :: "props \<Rightarrow> calendar \<Rightarrow> real" where
  "threshold p st =
     (if isOpen st then openHeight_current st - closeThreshold p
      else closedHeight p st + openThreshold p)"

definition bounceToPosition :: "props \<Rightarrow> calendar \<Rightarrow> real option \<Rightarrow> calendar \<times> spring" where
  "bounceToPosition p st arg =
     (let toValue = (case arg of None \<Rightarrow> 0 | Some v \<Rightarrow> v);
          isOpen1 = (height_current st \<ge> threshold p st);
          newValue = (if isOpen1 then openHeight_current st else closedHeight p st);
          st1 = st\<lparr>deltaY := height_current st\<rparr>;
          st2 = st1\<lparr>height_current := (if toValue \<noteq> 0 then toValue else newValue)\<rparr>;
          isOpen2 = (height_current st2 \<ge> threshold p st);
          st3 = st2\<lparr>weekOpacity := (if isOpen2 then 0 else 1)\<rparr>;
          st4 = st3\<lparr>headerDeltaY := headerTop st3\<rparr>
      in (st4,
          \<lparr>spring_toValue = height_current st2,
           spring_header = (if \<not> horizontal p
                            then Some (if isOpen2 then - headerHeight st else 0) else None),
           spring_isOpen = isOpen2\<rparr>))"

text \<open>
  The completion callback of the spring: \<^verbatim>\<open>onCalendarToggled\<close> receives \<open>spring_isOpen\<close>,
  and the position is set from the height the calendar rests at.
\<close>

definition springEnd :: "props \<Rightarrow> calendar \<Rightarrow> spring \<Rightarrow> calendar" where
  "springEnd p st sp =
     st\<lparr>deltaY := spring_toValue sp,
        headerDeltaY := (case spring_header sp of None \<Rightarrow> headerDeltaY st | Some t \<Rightarrow> t),
        position := (if height_current st = closedHeight p st then CLOSED else OPEN)\<rparr>"

definition handlePanResponderEnd :: "props \<Rightarrow> calendar \<Rightarrow> calendar \<times> spring" where
  "handlePanResponderEnd p st =
     bounceToPosition p (st\<lparr>height_current := wrapperHeight st\<rparr>) None"

text \<open>
  \<^verbatim>\<open>toggleCalendarPosition\<close>: the state and the spring as they are when the call returns,
  and the value it returns.
\<close>

definition toggleCalendarPosition :: "props \<Rightarrow> calendar \<Rightarrow> (calendar \<times> spring) \<times> bool" where
  "toggleCalendarPosition p st =
     (bounceToPosition p st
        (Some (if isOpen st then closedHeight p st else openHeight_current st)),
      \<not> isOpen st)"

text \<open>
  A calendar as it is mounted with no property passed, on a screen of 400 by 800, with a
  knob of 24 and a measured header of 78, showing a month of five weeks; and the same
  calendar in vertical orientation.
\<close>

definition default_props :: props where
  "default_props =
     \<lparr>horizontal_prop = None, hideKnob_prop = None, openThreshold_prop = None,
      closeThreshold_prop = None, numberOfDays = None, KNOB_CONTAINER_HEIGHT = 24,
      screenHeight = 800, screenWidth = 400\<rparr>"

definition vertical_props :: props where
  "vertical_props = default_props\<lparr>horizontal_prop := Some False\<rparr>"

definition closed_calendar :: calendar where
  "closed_calendar =
     \<lparr>position = CLOSED, headerHeight = 78, numberOfWeeks_current = 5,
      openHeight_current = 332, height_current = 148, wrapperHeight = 148, headerTop = 0,
      weekOpacity = 1, deltaY = 148, headerDeltaY = 0\<rparr>"

definition open_calendar :: calendar where
  "open_calendar =
     closed_calendar\<lparr>position := OPEN, height_current := 332, wrapperHeight := 332,
       weekOpacity := 0, deltaY := 332\<rparr>"

section \<open>Properties of the date model\<close>

subsection \<open>Serialising and parsing a day\<close>

lemma digit_val_char: "0 \<le> n \<Longrightarrow> n \<le> 9 \<Longrightarrow> digit_val (digit_char n) = Some n"
  by (simp add: digit_val_def digit_char_def of_char_of)

lemma num2_pad2:
  assumes "0 \<le> n" and "n \<le> 99" and "pad2 n = [a, b]"
  shows "num2 a b = Some n"
proof -
  have "0 \<le> n div 10" "n div 10 \<le> 9" "0 \<le> n mod 10" "n mod 10 \<le> 9"
    using assms(1,2) by auto
  then show ?thesis
    using assms(3) by (auto simp add: pad2_def num2_def digit_val_char)
qed

lemma num4_pad4:
  assumes "0 \<le> n" and "n \<le> 9999" and "pad4 n = [a, b, c, d]"
  shows "num4 a b c d = Some n"
proof -
  have r: "0 \<le> n div 100" "n div 100 \<le> 99" "0 \<le> n mod 100" "n mod 100 \<le> 99"
    using assms(1,2) by auto
  have "pad2 (n div 100) = [a, b]" "pad2 (n mod 100) = [c, d]"
    using assms(3) by (auto simp: pad4_def pad2_def)
  then have "num2 a b = Some (n div 100)" "num2 c d = Some (n mod 100)"
    using r num2_pad2 by blast+
  then show ?thesis by (simp add: num4_def)
qed

lemma civil_from_days_inverse:
  "(case civil_from_days z of (y, m, d) \<Rightarrow>
      days_from_civil y m d = z \<and> 1 \<le> m \<and> m \<le> 12 \<and> 1 \<le> d \<and> d \<le> 31
      \<and> 400 * ((z + 719468) div 146097) \<le> y \<and> y \<le> 400 * ((z + 719468) div 146097) + 400)"
proof -
  define z' where "z' = z + 719468"
  define era where "era = z' div 146097"
  define doe where "doe = z' - era * 146097"
  define c where "c = min 3 (doe div 36524)"
  define r1 where "r1 = doe - c * 36524"
  define q where "q = r1 div 1461"
  define r2 where "r2 = r1 - q * 1461"
  define a where "a = min 3 (r2 div 365)"
  define doy where "doy = r2 - a * 365"
  define yoe where "yoe = c * 100 + q * 4 + a"
  define mp where "mp = (5 * doy + 2) div 153"
  define d where "d = doy - (153 * mp + 2) div 5 + 1"
  define m where "m = (if mp < 10 then mp + 3 else mp - 9)"
  define y where "y = (if m \<le> 2 then yoe + era * 400 + 1 else yoe + era * 400)"
  have cfd: "civil_from_days z = (y, m, d)"
    unfolding civil_from_days_def Let_def y_def m_def d_def mp_def yoe_def doy_def a_def r2_def
      q_def r1_def c_def doe_def era_def z'_def by (rule refl)
  have doe: "0 \<le> doe" "doe \<le> 146096"
    unfolding doe_def era_def by (simp_all add: minus_div_mult_eq_mod)
  have c: "0 \<le> c \<and> c \<le> 3 \<and> 0 \<le> r1 \<and> r1 \<le> 36524"
    using doe r1_def c_def by arith
  have q: "0 \<le> q \<and> q \<le> 24 \<and> 0 \<le> r2 \<and> r2 \<le> 1460"
    using c r2_def q_def by arith
  have a: "0 \<le> a \<and> a \<le> 3 \<and> 0 \<le> doy \<and> doy \<le> 365"
    using q doy_def a_def by arith
  have yoe: "0 \<le> yoe \<and> yoe \<le> 399"
    using c q a yoe_def by arith
  have yoe4: "yoe div 4 = 25 * c + q"
  proof -
    have "yoe = 4 * (25 * c + q) + a" unfolding yoe_def by simp
    then show ?thesis using a by arith
  qed
  have yoe100: "yoe div 100 = c"
  proof -
    have "yoe = 100 * c + (q * 4 + a)" unfolding yoe_def by simp
    moreover have "0 \<le> q * 4 + a" "q * 4 + a < 100" using q a by arith+
    ultimately show ?thesis by arith
  qed
  have mp: "0 \<le> mp \<and> mp \<le> 11"
    using a mp_def by arith
  have d: "1 \<le> d \<and> d \<le> 31"
    using a mp d_def mp_def by arith
  have m: "1 \<le> m \<and> m \<le> 12"
    using mp unfolding m_def by auto
  have y': "(if m \<le> 2 then y - 1 else y) = yoe + era * 400"
    unfolding y_def by simp
  have era': "(yoe + era * 400) div 400 = era"
    using yoe by simp
  have mp': "(if m > 2 then m - 3 else m + 9) = mp"
    using mp unfolding m_def by auto
  have doe_eq: "doe = c * 36524 + q * 1461 + a * 365 + doy"
    unfolding doy_def r2_def r1_def by simp
  have "days_from_civil y m d =
          era * 146097 + (yoe * 365 + yoe div 4 - yoe div 100
            + ((153 * mp + 2) div 5 + d - 1)) - 719468"
    unfolding days_from_civil_def Let_def y' era' mp' by simp
  also have "(153 * mp + 2) div 5 + d - 1 = doy"
    unfolding d_def by simp
  also have "yoe * 365 + yoe div 4 - yoe div 100 + doy = doe"
  proof -
    have "yoe * 365 + (25 * c + q) - c + doy = doe"
      unfolding doe_eq yoe_def by simp
    then show ?thesis by (simp only: yoe4 yoe100)
  qed
  also have "era * 146097 + doe - 719468 = z"
    unfolding doe_def z'_def by simp
  finally have dfc: "days_from_civil y m d = z" .
  have "400 * era \<le> y \<and> y \<le> 400 * era + 400"
    using yoe unfolding y_def by auto
  then show ?thesis
    using cfd d m dfc unfolding era_def z'_def by simp
qed

lemma XDate_toMarkingFormat:
  assumes "inRange x"
  shows "XDate (toMarkingFormat x) = Some x"
proof -
  obtain y m d where cfd: "civil_from_days x = (y, m, d)"
    by (cases "civil_from_days x") auto
  have inv: "days_from_civil y m d = x" "1 \<le> m" "m \<le> 12" "1 \<le> d" "d \<le> 31"
     "400 * ((x + 719468) div 146097) \<le> y" "y \<le> 400 * ((x + 719468) div 146097) + 400"
    using civil_from_days_inverse [of x] cfd by simp_all
  have era: "3 \<le> (x + 719468) div 146097" "(x + 719468) div 146097 \<le> 23"
    using assms unfolding inRange_def by arith+
  have y: "0 \<le> y" "y \<le> 9999" "100 \<le> y"
    using inv(6,7) era by arith+
  obtain y1 y2 y3 y4 where py: "pad4 y = [y1, y2, y3, y4]"
    by (simp add: pad4_def pad2_def)
  obtain m1 m2 where pm: "pad2 m = [m1, m2]"
    by (simp add: pad2_def)
  obtain d1 d2 where pd: "pad2 d = [d1, d2]"
    by (simp add: pad2_def)
  have ny: "num4 y1 y2 y3 y4 = Some y"
    using num4_pad4 [OF y(1,2) py] .
  have nm: "num2 m1 m2 = Some m"
    using num2_pad2 [OF _ _ pm] inv(2,3) by simp
  have nd: "num2 d1 d2 = Some d"
    using num2_pad2 [OF _ _ pd] inv(4,5) by simp
  have mm: "(m - 1) div 12 = 0" "(m - 1) mod 12 + 1 = m"
    using inv(2,3) by auto
  have "toMarkingFormat x = [y1, y2, y3, y4, CHR ''-'', m1, m2, CHR ''-'', d1, d2]"
    by (simp add: toMarkingFormat_def cfd py pm pd)
  then show ?thesis
    by (simp add: XDate_def ny nm nd mm y(3) inv(1))
qed

section \<open>Properties of the window\<close>

lemma getDate_pageDay:
  "XDate date = Some d \<Longrightarrow>
   getDate date firstDay weekIndex = Some (toMarkingFormat (pageDay d firstDay weekIndex))"
  by (simp add: getDate_def pageDay_def weekStart_def addWeeks_def Let_def)

lemma getDatesArray_loop_pageDay:
  "XDate date = Some d \<Longrightarrow>
   getDatesArray_loop date firstDay n i acc =
     Some (acc @ map (\<lambda>k. toMarkingFormat (pageDay d firstDay k)) [i..n])"
proof (induction date firstDay n i acc rule: getDatesArray_loop.induct)
  case (1 date firstDay n i acc)
  show ?case
  proof (cases "i \<le> n")
    case True
    have g: "getDate date firstDay i = Some (toMarkingFormat (pageDay d firstDay i))"
      using "1.prems" by (rule getDate_pageDay)
    have "getDatesArray_loop date firstDay n i acc =
            getDatesArray_loop date firstDay n (i + 1)
              (acc @ [toMarkingFormat (pageDay d firstDay i)])"
      using True g by (subst getDatesArray_loop.simps) simp
    also have "\<dots> = Some ((acc @ [toMarkingFormat (pageDay d firstDay i)])
                  @ map (\<lambda>k. toMarkingFormat (pageDay d firstDay k)) [i + 1..n])"
      using "1.IH" [OF True g "1.prems"] .
    finally show ?thesis
      using upto_rec1 [OF True] by simp
  next
    case False
    then show ?thesis
      by (subst getDatesArray_loop.simps) simp
  qed
qed

lemma getDatesArray_pageDay:
  "XDate date = Some d \<Longrightarrow>
   getDatesArray date firstDay n =
     Some (map (\<lambda>k. toMarkingFormat (pageDay d firstDay k)) [- n..n])"
  by (simp add: getDatesArray_def getDatesArray_loop_pageDay)

lemma mod7_shift: "0 \<le> f \<Longrightarrow> f \<le> 6 \<Longrightarrow> (f + 7 * k) mod 7 = (f::int)"
  by simp

lemma weekStart_aligned:
  assumes "0 \<le> firstDay" and "firstDay \<le> 6"
  shows "getDay (weekStart d firstDay) = firstDay"
    and "weekStart d firstDay \<le> d"
    and "d \<le> weekStart d firstDay + 6"
proof -
  define w where "w = (d + 4) mod 7"
  define q where "q = (d + 4) div 7"
  have w: "0 \<le> w" "w < 7" by (simp_all add: w_def)
  have e: "d + 4 = 7 * q + w" by (simp add: w_def q_def)
  have ws: "weekStart d firstDay =
              (if w < firstDay \<and> firstDay > 0 then d + (firstDay - (7 + w)) else d + (firstDay - w))"
    by (simp add: weekStart_def getDay_def addDays_def Let_def w_def)
  show "weekStart d firstDay \<le> d" "d \<le> weekStart d firstDay + 6"
    using assms w unfolding ws by auto
  have A: "(d + (firstDay - w) + 4) mod 7 = firstDay"
  proof -
    have "d + (firstDay - w) + 4 = firstDay + 7 * q" using e by simp
    then have "(d + (firstDay - w) + 4) mod 7 = (firstDay + 7 * q) mod 7" by (simp only:)
    also have "\<dots> = firstDay" using assms by (rule mod7_shift)
    finally show ?thesis .
  qed
  have B: "(d + (firstDay - (7 + w)) + 4) mod 7 = firstDay"
  proof -
    have "d + (firstDay - (7 + w)) + 4 = firstDay + 7 * (q - 1)" using e by simp
    then have "(d + (firstDay - (7 + w)) + 4) mod 7 = (firstDay + 7 * (q - 1)) mod 7"
      by (simp only:)
    also have "\<dots> = firstDay" using assms by (rule mod7_shift)
    finally show ?thesis .
  qed
  show "getDay (weekStart d firstDay) = firstDay"
    unfolding getDay_def ws using A B by simp
qed

lemma getDatesArray_length:
  "XDate date = Some d \<Longrightarrow> 0 \<le> n \<Longrightarrow>
   length (the (getDatesArray date firstDay n)) = nat (2 * n + 1)"
  by (simp add: getDatesArray_pageDay)

lemma getDatesArray_nth:
  assumes "XDate date = Some d" and "i < nat (2 * n + 1)"
  shows "the (getDatesArray date firstDay n) ! i = toMarkingFormat (pageDay d firstDay (int i - n))"
proof -
  have "[- n..n] ! i = - n + int i"
    using assms(2) by (intro nth_upto) linarith
  moreover have "i < length [- n..n]"
    using assms(2) by simp
  ultimately show ?thesis
    using assms(1) by (simp add: getDatesArray_pageDay)
qed

lemma pageDay_step:
  "j \<noteq> 0 \<Longrightarrow> k \<noteq> 0 \<Longrightarrow> pageDay d firstDay k - pageDay d firstDay j = 7 * (k - j)"
  by (simp add: pageDay_def addWeeks_def)

lemma pageDay_increasing:
  assumes "0 \<le> firstDay" and "firstDay \<le> 6"
  shows "pageDay d firstDay k < pageDay d firstDay (k + 1)"
  using weekStart_aligned(2,3) [OF assms, of d]
  by (auto simp: pageDay_def addWeeks_def)

lemma pageDay_aligned:
  assumes "0 \<le> firstDay" and "firstDay \<le> 6" and "k \<noteq> 0"
  shows "getDay (pageDay d firstDay k) = firstDay"
proof -
  have "weekStart d firstDay + 7 * k + 4 = weekStart d firstDay + 4 + 7 * k"
    by simp
  then have "(weekStart d firstDay + 7 * k + 4) mod 7 = (weekStart d firstDay + 4 + 7 * k) mod 7"
    by (simp only:)
  also have "\<dots> = (weekStart d firstDay + 4) mod 7"
    by (rule mod_mult_self2)
  finally have "getDay (weekStart d firstDay + 7 * k) = getDay (weekStart d firstDay)"
    unfolding getDay_def .
  then show ?thesis
    using weekStart_aligned(1) [OF assms(1,2), of d] assms(3)
    by (simp add: pageDay_def addWeeks_def)
qed

lemma item_at_in_range:
  "0 \<le> i \<Longrightarrow> i < int (length xs) \<Longrightarrow> item_at xs i = Some (xs ! nat i)"
  by (simp add: item_at_def)

lemma onReachNearEdgeThreshold_value: "onReachNearEdgeThreshold = 20"
  by (simp add: onReachNearEdgeThreshold_def Math_round_def NUMBER_OF_PAGES_def)

section \<open>The claims about the window\<close>

text \<open>
  C1 (as amended). The entry at the center index of the window is the anchor date itself,
  serialised again: week 0 keeps the date as it is. The anchor lies in the week that starts
  on the aligned first day, at most six days after it. With \<open>firstDay = 0\<close> and the anchor
  2024-03-15 the center entry is 2024-03-15.
\<close>

theorem getDatesArray_center:
  assumes "XDate date = Some d" and "0 \<le> n"
  shows "getDatesArray date firstDay n \<noteq> None
       \<and> the (getDatesArray date firstDay n) ! nat n = toMarkingFormat d
       \<and> (inRange d \<longrightarrow> XDate (the (getDatesArray date firstDay n) ! nat n) = Some d)
       \<and> (0 \<le> firstDay \<and> firstDay \<le> 6 \<longrightarrow>
            getDay (weekStart d firstDay) = firstDay
            \<and> weekStart d firstDay \<le> d \<and> d \<le> weekStart d firstDay + 6)"
proof -
  have "nat n < nat (2 * n + 1)"
    using assms(2) by simp
  then have c: "the (getDatesArray date firstDay n) ! nat n = toMarkingFormat d"
    using getDatesArray_nth [OF assms(1), of "nat n" n firstDay] assms(2)
    by (simp add: pageDay_def)
  have "getDatesArray date firstDay n \<noteq> None"
    using assms(1) by (simp add: getDatesArray_pageDay)
  then show ?thesis
    using c weekStart_aligned [of firstDay d] XDate_toMarkingFormat [of d] by simp
qed

theorem getDatesArray_center_witness:
  "XDate ''2024-03-15'' = Some 19797 \<and> (0::int) \<le> 50 \<and> inRange 19797
   \<and> the (getDatesArray ''2024-03-15'' 0 50) ! nat 50 = ''2024-03-15''
   \<and> XDate (the (getDatesArray ''2024-03-15'' 0 50) ! nat 50) = Some 19797
   \<and> getDay (weekStart 19797 0) = 0 \<and> weekStart 19797 0 \<le> 19797"
proof -
  have h: "XDate ''2024-03-15'' = Some 19797" by code_simp
  have f: "toMarkingFormat 19797 = ''2024-03-15''" by code_simp
  have r: "inRange 19797" by (simp add: inRange_def)
  show ?thesis
    using h f r getDatesArray_center [OF h, of 50 0] by simp
qed

theorem getDatesArray_center_counterexample:
  "getDatesArray ''2024-03-15'' 0 50 \<noteq> None
   \<and> the (getDatesArray ''2024-03-15'' 0 50) ! 50 = ''2024-03-15''
   \<and> the (getDatesArray ''2024-03-15'' 0 50) ! 50 \<noteq> ''2024-03-10''
   \<and> XDate ''2024-03-15'' = Some 19797 \<and> getDay 19797 = 5
   \<and> toMarkingFormat (weekStart 19797 0) = ''2024-03-10''"
  by code_simp

text \<open>
  C2 (as amended). For a radius \<open>n \<ge> 0\<close> the window has exactly \<open>2 * n + 1\<close> entries: the
  serialised days \<open>pageDay d firstDay k\<close> for the week offsets \<open>k\<close> from \<open>- n\<close> to \<open>n\<close>.
  The entry of offset 0 is the anchor itself; any two other entries are whole weeks apart,
  seven days for each step of the offset, so that only the two gaps around the center may
  differ from seven days. For \<open>firstDay\<close> from 0 to 6 the days are strictly increasing and
  every entry but the center falls on \<open>firstDay\<close>. A day in range is read back from its
  entry.
\<close>

theorem getDatesArray_window:
  assumes "XDate date = Some d" and "0 \<le> n"
  shows "getDatesArray date firstDay n =
           Some (map (\<lambda>k. toMarkingFormat (pageDay d firstDay k)) [- n..n])
       \<and> length (the (getDatesArray date firstDay n)) = nat (2 * n + 1)
       \<and> (\<forall>i. i < nat (2 * n + 1) \<longrightarrow>
             the (getDatesArray date firstDay n) ! i
               = toMarkingFormat (pageDay d firstDay (int i - n)))
       \<and> pageDay d firstDay 0 = d
       \<and> (\<forall>j k. j \<noteq> 0 \<and> k \<noteq> 0 \<longrightarrow>
             pageDay d firstDay k - pageDay d firstDay j = 7 * (k - j))
       \<and> (0 \<le> firstDay \<and> firstDay \<le> 6 \<longrightarrow>
             (\<forall>k. pageDay d firstDay k < pageDay d firstDay (k + 1))
             \<and> (\<forall>k. k \<noteq> 0 \<longrightarrow> getDay (pageDay d firstDay k) = firstDay))
       \<and> (\<forall>k. inRange (pageDay d firstDay k) \<longrightarrow>
             XDate (toMarkingFormat (pageDay d firstDay k)) = Some (pageDay d firstDay k))"
proof -
  have 1: "getDatesArray date firstDay n =
             Some (map (\<lambda>k. toMarkingFormat (pageDay d firstDay k)) [- n..n])"
    using assms(1) by (rule getDatesArray_pageDay)
  have 2: "length (the (getDatesArray date firstDay n)) = nat (2 * n + 1)"
    using assms by (rule getDatesArray_length)
  have 3: "\<forall>i. i < nat (2 * n + 1) \<longrightarrow>
             the (getDatesArray date firstDay n) ! i
               = toMarkingFormat (pageDay d firstDay (int i - n))"
    using getDatesArray_nth [OF assms(1)] by blast
  have 4: "pageDay d firstDay 0 = d"
    by (simp add: pageDay_def)
  have 5: "\<forall>j k. j \<noteq> 0 \<and> k \<noteq> 0 \<longrightarrow>
             pageDay d firstDay k - pageDay d firstDay j = 7 * (k - j)"
    using pageDay_step by blast
  have 6: "0 \<le> firstDay \<and> firstDay \<le> 6 \<longrightarrow>
             (\<forall>k. pageDay d firstDay k < pageDay d firstDay (k + 1))
             \<and> (\<forall>k. k \<noteq> 0 \<longrightarrow> getDay (pageDay d firstDay k) = firstDay)"
    using pageDay_increasing pageDay_aligned by blast
  have 7: "\<forall>k. inRange (pageDay d firstDay k) \<longrightarrow>
             XDate (toMarkingFormat (pageDay d firstDay k)) = Some (pageDay d firstDay k)"
    using XDate_toMarkingFormat by blast
  show ?thesis
    using 1 2 3 4 5 6 7 by (intro conjI)
qed

theorem getDatesArray_window_witness:
  "XDate ''2024-03-15'' = Some 19797 \<and> (0::int) \<le> 1
   \<and> getDatesArray ''2024-03-15'' 0 1 =
       Some (map (\<lambda>k. toMarkingFormat (pageDay 19797 0 k)) [- 1..1])
   \<and> length (the (getDatesArray ''2024-03-15'' 0 1)) = 3
   \<and> pageDay 19797 0 1 - pageDay 19797 0 (- 1) = 14
   \<and> pageDay 19797 0 0 < pageDay 19797 0 1
   \<and> getDay (pageDay 19797 0 1) = 0"
proof -
  have h: "XDate ''2024-03-15'' = Some 19797" by code_simp
  note w = getDatesArray_window [OF h, of 1 0]
  have a: "\<forall>k. pageDay 19797 0 k < pageDay 19797 0 (k + 1)"
    and b: "\<forall>k. k \<noteq> 0 \<longrightarrow> getDay (pageDay 19797 0 k) = 0"
    and c: "\<forall>j k. j \<noteq> 0 \<and> k \<noteq> 0 \<longrightarrow> pageDay 19797 0 k - pageDay 19797 0 j = 7 * (k - j)"
    using w by simp_all
  have "pageDay 19797 0 0 < pageDay 19797 0 (0 + 1)"
    using a by blast
  moreover have "getDay (pageDay 19797 0 1) = 0"
    using b by simp
  moreover have "pageDay 19797 0 1 - pageDay 19797 0 (- 1) = 7 * (1 - (- 1))"
    using c by simp
  ultimately show ?thesis
    using h w by simp
qed

theorem getDatesArray_window_counterexample:
  "getDatesArray ''2024-03-15'' 0 1 = Some [''2024-03-03'', ''2024-03-15'', ''2024-03-17'']
   \<and> \<not> days_apart 7 [''2024-03-03'', ''2024-03-15'', ''2024-03-17'']
   \<and> XDate ''2024-03-03'' = Some 19785 \<and> XDate ''2024-03-15'' = Some 19797
   \<and> XDate ''2024-03-17'' = Some 19799"
  by code_simp

text \<open>
  C5. A page change publishes the date of the page to the context, tagged \<open>WEEK_SCROLL\<close>,
  exactly when the user scrolled; otherwise it publishes nothing. When the date of the
  context changes with the tag \<open>WEEK_SCROLL\<close>, the component neither scrolls the list nor
  sets its items; with any other tag it scrolls the mounted list, and it never sets its
  items.
\<close>

theorem onPageChange_provenance:
  "(scrolledByUser \<longrightarrow>
      onPageChange items pageIndex scrolledByUser = [SetDate (item_at items pageIndex) WEEK_SCROLL])
   \<and> (\<not> scrolledByUser \<longrightarrow> onPageChange items pageIndex scrolledByUser = [])
   \<and> (0 \<le> pageIndex \<and> pageIndex < int (length items) \<longrightarrow>
        item_at items pageIndex = Some (items ! nat pageIndex))
   \<and> dateEffect sameWeek listMounted items firstDay containerWidth date WEEK_SCROLL = []
   \<and> (updateSource \<noteq> WEEK_SCROLL \<and> listMounted \<longrightarrow>
        dateEffect sameWeek listMounted items firstDay containerWidth date updateSource =
          [ScrollToOffset
             (real_of_int (findIndex (\<lambda>item. sameWeek item date firstDay) items) * containerWidth)
             0 False])
   \<and> (\<forall>array. SetItems array
          \<notin> set (dateEffect sameWeek listMounted items firstDay containerWidth date updateSource))"
  by (simp add: onPageChange_def dateEffect_def item_at_in_range)

theorem onPageChange_provenance_witness:
  "onPageChange [''2024-03-03'', ''2024-03-10'', ''2024-03-17''] 2 True
     = [SetDate (Some ''2024-03-17'') WEEK_SCROLL]
   \<and> onPageChange [''2024-03-03'', ''2024-03-10'', ''2024-03-17''] 2 False = []
   \<and> dateEffect (\<lambda>a b f. a = b) True [''2024-03-03'', ''2024-03-10'', ''2024-03-17''] 0 300
        ''2024-03-17'' WEEK_SCROLL = []
   \<and> dateEffect (\<lambda>a b f. a = b) True [''2024-03-03'', ''2024-03-10'', ''2024-03-17''] 0 300
        ''2024-03-17'' DAY_PRESS = [ScrollToOffset 600 0 False]"
proof -
  note t = onPageChange_provenance
    [of _ "[''2024-03-03'', ''2024-03-10'', ''2024-03-17'']" 2 "\<lambda>a b f. a = b" True 0 300
       "''2024-03-17''"]
  have "onPageChange [''2024-03-03'', ''2024-03-10'', ''2024-03-17''] 2 True
          = [SetDate (Some ''2024-03-17'') WEEK_SCROLL]"
    using t [of True DAY_PRESS] by simp
  moreover have "onPageChange [''2024-03-03'', ''2024-03-10'', ''2024-03-17''] 2 False = []"
    using t [of False DAY_PRESS] by simp
  moreover have "dateEffect (\<lambda>a b f. a = b) True [''2024-03-03'', ''2024-03-10'', ''2024-03-17''] 0 300
        ''2024-03-17'' WEEK_SCROLL = []"
    using t [of True DAY_PRESS] by simp
  moreover have "dateEffect (\<lambda>a b f. a = b) True [''2024-03-03'', ''2024-03-10'', ''2024-03-17''] 0 300
        ''2024-03-17'' DAY_PRESS = [ScrollToOffset 600 0 False]"
    using t [of True DAY_PRESS] by (simp add: findIndex_def)
  ultimately show ?thesis by simp
qed

text \<open>
  C6. The near-edge threshold handed to the list is \<open>round (0.4 * 50) = 20\<close> pages. A call
  of \<^verbatim>\<open>reloadPages\<close> for a page whose date is a serialised day in range sets the items
  exactly once, to the window that \<^verbatim>\<open>getDatesArray\<close> builds around the date of that page:
  it has \<open>2 * 50 + 1\<close> entries, and the date of the page is its entry at the center index.
\<close>

theorem reloadPages_recenters:
  assumes "0 \<le> pageIndex" and "pageIndex < int (length items)"
    and "items ! nat pageIndex = toMarkingFormat x" and "inRange x"
  shows "onReachNearEdgeThreshold = Math_round (real_of_int NUMBER_OF_PAGES * (4 / 10))
       \<and> onReachNearEdgeThreshold = 20
       \<and> (\<exists>array. reloadPages items firstDay pageIndex = Some [SetItems array]
             \<and> getDatesArray (items ! nat pageIndex) firstDay NUMBER_OF_PAGES = Some array
             \<and> length array = nat (2 * NUMBER_OF_PAGES + 1)
             \<and> array ! nat NUMBER_OF_PAGES = items ! nat pageIndex)"
proof -
  have p: "XDate (items ! nat pageIndex) = Some x"
    using assms(3,4) by (simp add: XDate_toMarkingFormat)
  have n: "0 \<le> NUMBER_OF_PAGES"
    by (simp add: NUMBER_OF_PAGES_def)
  obtain array where a: "getDatesArray (items ! nat pageIndex) firstDay NUMBER_OF_PAGES = Some array"
    using p by (simp add: getDatesArray_pageDay)
  have "length array = nat (2 * NUMBER_OF_PAGES + 1)"
    using getDatesArray_length [OF p n, of firstDay] a by simp
  moreover have "array ! nat NUMBER_OF_PAGES = items ! nat pageIndex"
    using getDatesArray_nth [OF p, of "nat NUMBER_OF_PAGES" NUMBER_OF_PAGES firstDay] a n assms(3)
    by (simp add: pageDay_def NUMBER_OF_PAGES_def)
  moreover have "reloadPages items firstDay pageIndex = Some [SetItems array]"
    using assms(1,2) a by (simp add: reloadPages_def item_at_in_range)
  ultimately show ?thesis
    using a onReachNearEdgeThreshold_value by (simp add: onReachNearEdgeThreshold_def)
qed

theorem reloadPages_recenters_witness:
  "(0::int) \<le> 2 \<and> 2 < int (length [''2024-03-03'', ''2024-03-15'', ''2024-03-17''])
   \<and> [''2024-03-03'', ''2024-03-15'', ''2024-03-17''] ! nat 2 = toMarkingFormat 19799
   \<and> inRange 19799
   \<and> (\<exists>array. reloadPages [''2024-03-03'', ''2024-03-15'', ''2024-03-17''] 0 2
                  = Some [SetItems array]
         \<and> length array = 101 \<and> array ! 50 = ''2024-03-17'')"
proof -
  have f: "[''2024-03-03'', ''2024-03-15'', ''2024-03-17''] ! nat 2 = toMarkingFormat 19799"
    by code_simp
  have r: "inRange 19799"
    by (simp add: inRange_def)
  have l: "2 < int (length [''2024-03-03'', ''2024-03-15'', ''2024-03-17''])"
    by simp
  obtain array where
    "reloadPages [''2024-03-03'', ''2024-03-15'', ''2024-03-17''] 0 2 = Some [SetItems array]"
    "length array = nat (2 * NUMBER_OF_PAGES + 1)"
    "array ! nat NUMBER_OF_PAGES = [''2024-03-03'', ''2024-03-15'', ''2024-03-17''] ! nat 2"
    using reloadPages_recenters [OF _ l f r, of 0] by auto
  then have "reloadPages [''2024-03-03'', ''2024-03-15'', ''2024-03-17''] 0 2 = Some [SetItems array]
      \<and> length array = 101 \<and> array ! 50 = ''2024-03-17''"
    by (simp add: NUMBER_OF_PAGES_def)
  moreover have "(0::int) \<le> 2"
    by simp
  ultimately show ?thesis
    using f r l by blast
qed

section \<open>Properties of the expansion state machine\<close>

lemma closedHeight_bounceToPosition [simp]:
  "closedHeight p (fst (bounceToPosition p st arg)) = closedHeight p st"
  by (simp add: bounceToPosition_def closedHeight_def Let_def)

lemma bounceToPosition_height:
  "height_current (fst (bounceToPosition p st arg)) =
     (case arg of
        None \<Rightarrow> (if height_current st \<ge> threshold p st then openHeight_current st
                   else closedHeight p st)
      | Some v \<Rightarrow> (if v \<noteq> 0 then v
                    else if height_current st \<ge> threshold p st then openHeight_current st
                    else closedHeight p st))"
  by (simp add: bounceToPosition_def Let_def split: option.split)

lemma bounceToPosition_spring:
  "spring_toValue (snd (bounceToPosition p st arg)) =
     height_current (fst (bounceToPosition p st arg))
   \<and> spring_isOpen (snd (bounceToPosition p st arg)) =
       (height_current (fst (bounceToPosition p st arg)) \<ge> threshold p st)
   \<and> position (fst (bounceToPosition p st arg)) = position st"
  by (simp add: bounceToPosition_def Let_def)

lemma springEnd_position:
  "position (springEnd p st sp) = (if height_current st = closedHeight p st then CLOSED else OPEN)"
  by (simp add: springEnd_def)

lemma closed_calendar_values:
  "closedHeight default_props closed_calendar = 148"
  "getOpenHeight default_props closed_calendar = 332"
  "openThreshold default_props = 30"
  "closeThreshold default_props = 30"
  "threshold default_props closed_calendar = 178"
  by (simp_all add: closedHeight_def getOpenHeight_def openThreshold_def closeThreshold_def
      threshold_def isOpen_def horizontal_def hideKnob_def WEEK_HEIGHT_def
      PAN_GESTURE_THRESHOLD_def default_props_def closed_calendar_def)

section \<open>The claims about the expansion state machine\<close>

text \<open>
  C3. With no target, \<^verbatim>\<open>bounceToPosition\<close> rests at the open height when the last live
  height reaches the threshold and at the closed height otherwise; the threshold is
  \<open>openHeight - closeThreshold\<close> when open and \<open>closedHeight + openThreshold\<close> when
  closed. From the closed state, a height of \<open>closedHeight + openThreshold + 1\<close> (within
  the bounds, the threshold not negative) resolves to open: the spring goes to the open
  height, the callback reports open and the position becomes \<open>OPEN\<close>. A height of
  \<open>closedHeight + openThreshold - 1\<close> resolves to closed.
\<close>

theorem bounceToPosition_resolves:
  "threshold p st = (if position st = OPEN then openHeight_current st - closeThreshold p
                     else closedHeight p st + openThreshold p)
   \<and> height_current (fst (bounceToPosition p st None)) =
       (if height_current st \<ge> threshold p st then openHeight_current st else closedHeight p st)
   \<and> (position st = CLOSED \<and> height_current st = closedHeight p st + openThreshold p + 1
        \<and> height_current st \<le> openHeight_current st \<and> 0 \<le> openThreshold p \<longrightarrow>
        spring_toValue (snd (bounceToPosition p st None)) = openHeight_current st
        \<and> spring_isOpen (snd (bounceToPosition p st None))
        \<and> position (springEnd p (fst (bounceToPosition p st None))
                      (snd (bounceToPosition p st None))) = OPEN)
   \<and> (position st = CLOSED \<and> height_current st = closedHeight p st + openThreshold p - 1 \<longrightarrow>
        spring_toValue (snd (bounceToPosition p st None)) = closedHeight p st
        \<and> (0 < openThreshold p \<longrightarrow> \<not> spring_isOpen (snd (bounceToPosition p st None)))
        \<and> position (springEnd p (fst (bounceToPosition p st None))
                      (snd (bounceToPosition p st None))) = CLOSED)"
proof -
  have t: "threshold p st = (if position st = OPEN then openHeight_current st - closeThreshold p
                     else closedHeight p st + openThreshold p)"
    by (simp add: threshold_def isOpen_def)
  have h: "height_current (fst (bounceToPosition p st None)) =
       (if height_current st \<ge> threshold p st then openHeight_current st else closedHeight p st)"
    by (simp add: bounceToPosition_height)
  have up: "spring_toValue (snd (bounceToPosition p st None)) = openHeight_current st
        \<and> spring_isOpen (snd (bounceToPosition p st None))
        \<and> position (springEnd p (fst (bounceToPosition p st None))
                      (snd (bounceToPosition p st None))) = OPEN"
    if "position st = CLOSED" "height_current st = closedHeight p st + openThreshold p + 1"
       "height_current st \<le> openHeight_current st" "0 \<le> openThreshold p"
  proof -
    have th: "threshold p st = closedHeight p st + openThreshold p"
      using that(1) t by simp
    have "height_current (fst (bounceToPosition p st None)) = openHeight_current st"
      using h th that(2) by simp
    moreover have "openHeight_current st \<ge> threshold p st" "openHeight_current st \<noteq> closedHeight p st"
      using th that by simp_all
    ultimately show ?thesis
      using bounceToPosition_spring [of p st None] by (simp add: springEnd_position)
  qed
  have down: "spring_toValue (snd (bounceToPosition p st None)) = closedHeight p st
        \<and> (0 < openThreshold p \<longrightarrow> \<not> spring_isOpen (snd (bounceToPosition p st None)))
        \<and> position (springEnd p (fst (bounceToPosition p st None))
                      (snd (bounceToPosition p st None))) = CLOSED"
    if "position st = CLOSED" "height_current st = closedHeight p st + openThreshold p - 1"
  proof -
    have th: "threshold p st = closedHeight p st + openThreshold p"
      using that(1) t by simp
    have "height_current (fst (bounceToPosition p st None)) = closedHeight p st"
      using h th that(2) by simp
    then show ?thesis
      using bounceToPosition_spring [of p st None] th by (simp add: springEnd_position)
  qed
  show ?thesis
    using t h up down by blast
qed

theorem bounceToPosition_resolves_witness:
  "position (closed_calendar\<lparr>height_current := 179\<rparr>) = CLOSED
   \<and> closedHeight default_props (closed_calendar\<lparr>height_current := 179\<rparr>) = 148
   \<and> openThreshold default_props = 30
   \<and> openHeight_current (closed_calendar\<lparr>height_current := 179\<rparr>) = 332
   \<and> spring_toValue (snd (bounceToPosition default_props
        (closed_calendar\<lparr>height_current := 179\<rparr>) None)) = 332
   \<and> spring_isOpen (snd (bounceToPosition default_props
        (closed_calendar\<lparr>height_current := 179\<rparr>) None))
   \<and> position (springEnd default_props
        (fst (bounceToPosition default_props (closed_calendar\<lparr>height_current := 179\<rparr>) None))
        (snd (bounceToPosition default_props (closed_calendar\<lparr>height_current := 179\<rparr>) None)))
       = OPEN
   \<and> spring_toValue (snd (bounceToPosition default_props
        (closed_calendar\<lparr>height_current := 177\<rparr>) None)) = 148
   \<and> \<not> spring_isOpen (snd (bounceToPosition default_props
        (closed_calendar\<lparr>height_current := 177\<rparr>) None))
   \<and> position (springEnd default_props
        (fst (bounceToPosition default_props (closed_calendar\<lparr>height_current := 177\<rparr>) None))
        (snd (bounceToPosition default_props (closed_calendar\<lparr>height_current := 177\<rparr>) None)))
       = CLOSED"
proof -
  have v: "closedHeight default_props (closed_calendar\<lparr>height_current := h\<rparr>) = 148"
    "openThreshold default_props = 30"
    "position (closed_calendar\<lparr>height_current := h\<rparr>) = CLOSED"
    "openHeight_current (closed_calendar\<lparr>height_current := h\<rparr>) = 332"
    "height_current (closed_calendar\<lparr>height_current := h\<rparr>) = h" for h
    by (simp_all add: closedHeight_def openThreshold_def hideKnob_def WEEK_HEIGHT_def
        PAN_GESTURE_THRESHOLD_def default_props_def closed_calendar_def)
  show ?thesis
    using bounceToPosition_resolves [of default_props "closed_calendar\<lparr>height_current := 179\<rparr>"]
      bounceToPosition_resolves [of default_props "closed_calendar\<lparr>height_current := 177\<rparr>"]
    by (simp add: v)
qed

text \<open>
  C4. Where the closed height is at most the open height, a gesture move leaves the live
  height within the closed and the open height, for every start height and every delta;
  the move changes neither bound.
\<close>

theorem handlePanResponderMove_bounds:
  assumes "closedHeight p st \<le> openHeight_current st"
  shows "closedHeight p st \<le> wrapperHeight (handlePanResponderMove p st dy)
       \<and> wrapperHeight (handlePanResponderMove p st dy) \<le> openHeight_current st
       \<and> wrapperHeight (handlePanResponderMove p st dy) =
           min (max (closedHeight p st) (height_current st + dy)) (openHeight_current st)
       \<and> closedHeight p (handlePanResponderMove p st dy) = closedHeight p st
       \<and> openHeight_current (handlePanResponderMove p st dy) = openHeight_current st
       \<and> height_current (fst (handlePanResponderEnd p (handlePanResponderMove p st dy)))
           \<in> {closedHeight p st, openHeight_current st}"
proof -
  have w: "wrapperHeight (handlePanResponderMove p st dy) =
           min (max (closedHeight p st) (height_current st + dy)) (openHeight_current st)"
    by (simp add: handlePanResponderMove_def Let_def)
  have c: "closedHeight p (handlePanResponderMove p st dy) = closedHeight p st"
    by (simp add: handlePanResponderMove_def closedHeight_def Let_def)
  have o: "openHeight_current (handlePanResponderMove p st dy) = openHeight_current st"
    by (simp add: handlePanResponderMove_def Let_def)
  have e: "height_current (fst (handlePanResponderEnd p (handlePanResponderMove p st dy)))
           \<in> {closedHeight p st, openHeight_current st}"
    using c o by (simp add: handlePanResponderEnd_def bounceToPosition_height closedHeight_def)
  show ?thesis
    using assms w c o e by simp
qed

theorem handlePanResponderMove_bounds_witness:
  "closedHeight default_props closed_calendar \<le> openHeight_current closed_calendar
   \<and> wrapperHeight (handlePanResponderMove default_props closed_calendar 1000) = 332
   \<and> wrapperHeight (handlePanResponderMove default_props closed_calendar (- 1000)) = 148
   \<and> wrapperHeight (handlePanResponderMove default_props closed_calendar 50) = 198"
proof -
  have v: "closedHeight default_props closed_calendar = 148"
    "openHeight_current closed_calendar = 332" "height_current closed_calendar = 148"
    by (simp_all add: closed_calendar_values) (simp_all add: closed_calendar_def)
  have a: "closedHeight default_props closed_calendar \<le> openHeight_current closed_calendar"
    by (simp add: v)
  show ?thesis
    using a handlePanResponderMove_bounds [OF a, of 1000]
      handlePanResponderMove_bounds [OF a, of "- 1000"]
      handlePanResponderMove_bounds [OF a, of 50]
    by (simp add: v)
qed

text \<open>
  C7 (as amended). In horizontal orientation (the default) the open height is the header
  height plus 46 for each week of the visible month plus the knob height unless the knob
  is hidden; in vertical orientation it is the larger side of the screen. The closed
  height is the header height plus 46 plus the knob height unless the knob is hidden or
  more than one day is shown. A knob that is not configured is hidden exactly when more
  than one day is shown.
\<close>

theorem derived_geometry:
  "(horizontal p \<longrightarrow>
      getOpenHeight p st =
        headerHeight st + 46 * numberOfWeeks_current st
        + (if hideKnob p then 0 else KNOB_CONTAINER_HEIGHT p))
   \<and> (\<not> horizontal p \<longrightarrow> getOpenHeight p st = max (screenHeight p) (screenWidth p))
   \<and> closedHeight p st =
       headerHeight st + 46
       + (if hideKnob p \<or> (\<exists>n. numberOfDays p = Some n \<and> n > 1) then 0
          else KNOB_CONTAINER_HEIGHT p)
   \<and> (hideKnob_prop p = None \<longrightarrow> hideKnob p = (\<exists>n. numberOfDays p = Some n \<and> n > 1))
   \<and> (horizontal_prop p = None \<longrightarrow> horizontal p)"
  by (auto simp: getOpenHeight_def closedHeight_def hideKnob_def horizontal_def WEEK_HEIGHT_def
      split: option.splits)

theorem derived_geometry_witness:
  "horizontal default_props
   \<and> getOpenHeight default_props closed_calendar = 332
   \<and> closedHeight default_props closed_calendar = 148
   \<and> \<not> horizontal vertical_props
   \<and> getOpenHeight vertical_props closed_calendar = 800"
proof -
  have v: "horizontal default_props" "\<not> horizontal vertical_props"
    "\<not> hideKnob default_props" "numberOfDays default_props = None"
    "KNOB_CONTAINER_HEIGHT default_props = 24"
    "screenHeight vertical_props = 800" "screenWidth vertical_props = 400"
    "headerHeight closed_calendar = 78" "numberOfWeeks_current closed_calendar = 5"
    by (simp_all add: horizontal_def hideKnob_def default_props_def vertical_props_def
        closed_calendar_def)
  show ?thesis
    using derived_geometry [of default_props closed_calendar]
      derived_geometry [of vertical_props closed_calendar]
    by (simp add: v)
qed

theorem derived_geometry_counterexample:
  "getOpenHeight vertical_props closed_calendar = 800
   \<and> headerHeight closed_calendar + WEEK_HEIGHT * numberOfWeeks_current closed_calendar
       + (if hideKnob vertical_props then 0 else KNOB_CONTAINER_HEIGHT vertical_props) = 332"
  by (simp add: getOpenHeight_def horizontal_def hideKnob_def WEEK_HEIGHT_def
      vertical_props_def default_props_def closed_calendar_def)

text \<open>
  C8. \<^verbatim>\<open>toggleCalendarPosition\<close> returns the negation of the open flag it is called in:
  true from the closed position, false from the open one. When it returns, the spring has
  only been started: the position is still the one of the call.
\<close>

theorem toggleCalendarPosition_returns:
  "snd (toggleCalendarPosition p st) = (\<not> isOpen st)
   \<and> snd (toggleCalendarPosition p st) = (position st = CLOSED)
   \<and> position (fst (fst (toggleCalendarPosition p st))) = position st
   \<and> fst (toggleCalendarPosition p st) =
       bounceToPosition p st
         (Some (if position st = OPEN then closedHeight p st else openHeight_current st))"
proof -
  have "(position st \<noteq> OPEN) = (position st = CLOSED)"
    by (cases "position st") simp_all
  then show ?thesis
    using bounceToPosition_spring [of p st]
    by (simp add: toggleCalendarPosition_def isOpen_def)
qed

theorem toggleCalendarPosition_returns_witness:
  "snd (toggleCalendarPosition default_props closed_calendar) = True
   \<and> position (fst (fst (toggleCalendarPosition default_props closed_calendar))) = CLOSED
   \<and> snd (toggleCalendarPosition default_props open_calendar) = False
   \<and> position (fst (fst (toggleCalendarPosition default_props open_calendar))) = OPEN"
proof -
  have v: "position closed_calendar = CLOSED" "position open_calendar = OPEN"
    by (simp_all add: closed_calendar_def open_calendar_def)
  note c = toggleCalendarPosition_returns [of default_props closed_calendar]
  note d = toggleCalendarPosition_returns [of default_props open_calendar]
  have "snd (toggleCalendarPosition default_props closed_calendar)
          = (position closed_calendar = CLOSED)"
    "position (fst (fst (toggleCalendarPosition default_props closed_calendar)))
          = position closed_calendar"
    using c by blast+
  moreover have "snd (toggleCalendarPosition default_props open_calendar)
          = (position open_calendar = CLOSED)"
    "position (fst (fst (toggleCalendarPosition default_props open_calendar)))
          = position open_calendar"
    using d by blast+
  ultimately show ?thesis
    by (simp add: v)
qed

text \<open>
  C10. A target of 0 is the same call as no target: the calendar rests at the open or the
  closed height that the threshold decides, so that no caller can ask for a resting height
  of 0. With a target other than 0 the calendar rests at the target, and the flag that the
  completion reports compares the target, not the height before the call, with the
  threshold.
\<close>

theorem bounceToPosition_target:
  "bounceToPosition p st (Some 0) = bounceToPosition p st None
   \<and> height_current (fst (bounceToPosition p st (Some 0))) =
       (if height_current st \<ge> threshold p st then openHeight_current st else closedHeight p st)
   \<and> (v \<noteq> 0 \<longrightarrow>
        height_current (fst (bounceToPosition p st (Some v))) = v
        \<and> spring_toValue (snd (bounceToPosition p st (Some v))) = v
        \<and> spring_isOpen (snd (bounceToPosition p st (Some v))) = (v \<ge> threshold p st))"
proof -
  have "bounceToPosition p st (Some 0) = bounceToPosition p st None"
    by (simp add: bounceToPosition_def)
  moreover have "height_current (fst (bounceToPosition p st (Some 0))) =
       (if height_current st \<ge> threshold p st then openHeight_current st else closedHeight p st)"
    by (simp add: bounceToPosition_height)
  moreover have "height_current (fst (bounceToPosition p st (Some v))) = v" if "v \<noteq> 0"
    using that by (simp add: bounceToPosition_height)
  ultimately show ?thesis
    using bounceToPosition_spring [of p st "Some v"] by simp
qed

theorem bounceToPosition_target_witness:
  "bounceToPosition default_props closed_calendar (Some 0)
     = bounceToPosition default_props closed_calendar None
   \<and> height_current (fst (bounceToPosition default_props closed_calendar (Some 0))) = 148
   \<and> height_current (fst (bounceToPosition default_props closed_calendar (Some 332))) = 332
   \<and> spring_isOpen (snd (bounceToPosition default_props closed_calendar (Some 332)))
   \<and> \<not> spring_isOpen (snd (bounceToPosition default_props closed_calendar (Some 160)))"
proof -
  have v: "height_current closed_calendar = 148"
    by (simp add: closed_calendar_def)
  show ?thesis
    using bounceToPosition_target [of default_props closed_calendar 332]
      bounceToPosition_target [of default_props closed_calendar 160]
    by (simp add: v closed_calendar_values)
qed

end
